theory Spec2Isabelle
  imports Complex_Main
begin

section \<open>Data model of \<open>src/app/page.tsx\<close>\<close>

text \<open>
  The page component keeps six pieces of React state and calls three operations of the
  external library pdf-lib. The embedding follows the first (preview) variant of
  \<open>page.tsx\<close>; the two later variants of the file share its handlers and differ in
  the preview (the \<open>url\<close> field and the thumbnails), the wording of the messages and
  the condition under which the "First half" button is rendered, which is modelled
  separately below.

  An \<open>ArrayBuffer\<close> is the list of its bytes. A pdf-lib document is the list of its
  pages, of an arbitrary type \<open>'p\<close>: \<open>PDFDocument.create()\<close> is the empty list,
  \<open>getPageCount\<close> is the length and \<open>addPage\<close> appends at the end. A rejected promise
  or a thrown exception is the value \<open>None\<close>.
\<close>

type_synonym bytes = "nat list"

record File =
  file_name :: string
  file_type :: string
  file_size :: nat
  file_arrayBuffer :: "bytes option"

record Blob =
  blob_parts :: bytes
  blob_type :: string

record PdfInfo =
  name :: string
  pageCount :: int
  size_str :: string
  data :: bytes
  url :: string

text \<open>
  The operations the component does not implement itself: the three pdf-lib calls and
  \<open>URL.createObjectURL\<close>. They are parameters of every handler that uses them.
\<close>

record 'p pdf_lib =
  load :: "bytes \<Rightarrow> 'p list option"
  copyPages :: "'p list \<Rightarrow> int list \<Rightarrow> 'p list option"
  save :: "'p list \<Rightarrow> bytes option"
  createObjectURL :: "Blob \<Rightarrow> string"

record state =
  pdfInfo :: "PdfInfo option"
  startPage :: int
  endPage :: int
  isDragging :: bool
  isProcessing :: bool
  error :: "string option"

text \<open>What the anchor element built by \<open>extractPages\<close> offers when it is clicked.\<close>

record download =
  href_blob :: Blob
  download_name :: string

definition initial_state :: state where
  "initial_state =
     \<lparr>pdfInfo = None, startPage = 1, endPage = 1, isDragging = False,
      isProcessing = False, error = None\<rparr>"

section \<open>Numbers as text\<close>

text \<open>
  Template literals and string concatenation print an integral number in decimal.
\<close>

definition digit :: "nat \<Rightarrow> char" where
  "digit d = ''0123456789'' ! d"

fun show_nat :: "nat \<Rightarrow> string" where
  "show_nat n =
     (if n < 10 then [digit n]
      else show_nat (n div 10) @ [digit (n mod 10)])"

declare show_nat.simps [simp del]

definition show_int :: "int \<Rightarrow> string" where
  "show_int i = (if i < 0 then CHR ''-'' # show_nat (nat (- i)) else show_nat (nat i))"

text \<open>
  \<open>(bytes / d).toFixed(1)\<close> for \<open>d\<close> a power of two: the quotient is exact in binary
  floating point, and \<open>toFixed\<close> takes the nearest number of tenths, the larger one on a
  tie.
\<close>

definition toFixed1 :: "nat \<Rightarrow> nat \<Rightarrow> string" where
  "toFixed1 bytes d =
     (let n = (20 * bytes + d) div (2 * d)
      in show_nat (n div 10) @ ''.'' @ show_nat (n mod 10))"

definition formatFileSize :: "nat \<Rightarrow> string" where
  "formatFileSize bytes =
     (if bytes < 1024 then show_nat bytes @ '' B''
      else if bytes < 1024 * 1024 then toFixed1 bytes 1024 @ '' KB''
      else toFixed1 bytes (1024 * 1024) @ '' MB'')"

section \<open>Loading a document\<close>

text \<open>
  \<open>loadPdf\<close> is asynchronous. It writes the state twice: before its first \<open>await\<close>
  (\<open>loadPdf_begin\<close>) and in the continuation after the last one, where the \<open>try\<close>
  body or the \<open>catch\<close> block runs, followed by \<open>finally\<close> (\<open>loadPdf_settle\<close>).
\<close>

definition loadPdf_begin :: "state \<Rightarrow> state" where
  "loadPdf_begin st = st\<lparr>error := None, isProcessing := True\<rparr>"

definition loadPdf_catch :: "state \<Rightarrow> state" where
  "loadPdf_catch st =
     st\<lparr>error := Some ''Unable to read this file. Please ensure it's a valid PDF.'',
        pdfInfo := None\<rparr>"

definition loadPdf_try :: "'p pdf_lib \<Rightarrow> File \<Rightarrow> state \<Rightarrow> state option" where
  "loadPdf_try lib file st =
     (case file_arrayBuffer file of
        None \<Rightarrow> None
      | Some arrayBuffer \<Rightarrow>
          (case load lib arrayBuffer of
             None \<Rightarrow> None
           | Some pdf \<Rightarrow>
               (let pageCount = int (length pdf);
                    blob = \<lparr>blob_parts = arrayBuffer, blob_type = ''application/pdf''\<rparr>;
                    url = createObjectURL lib blob
                in Some (st\<lparr>pdfInfo := Some \<lparr>name = file_name file,
                                               pageCount = pageCount,
                                               size_str = formatFileSize (file_size file),
                                               data = arrayBuffer,
                                               url = url\<rparr>,
                             startPage := 1,
                             endPage := pageCount\<rparr>))))"

definition loadPdf_settle :: "'p pdf_lib \<Rightarrow> File \<Rightarrow> state \<Rightarrow> state" where
  "loadPdf_settle lib file st =
     (case loadPdf_try lib file st of
        Some st' \<Rightarrow> st'
      | None \<Rightarrow> loadPdf_catch st)\<lparr>isProcessing := False\<rparr>"

definition loadPdf :: "'p pdf_lib \<Rightarrow> File \<Rightarrow> state \<Rightarrow> state" where
  "loadPdf lib file st = loadPdf_settle lib file (loadPdf_begin st)"

text \<open>
  The two entry points. Neither awaits \<open>loadPdf\<close>: each returns the state after its
  synchronous part together with the file whose load it has started, if any.
\<close>

definition handleFileSelect :: "File option \<Rightarrow> state \<Rightarrow> state \<times> File option" where
  "handleFileSelect file st =
     (case file of
        None \<Rightarrow> (st, None)
      | Some f \<Rightarrow>
          if file_type f = ''application/pdf'' then (loadPdf_begin st, Some f)
          else (st\<lparr>error := Some ''Please select a PDF file.''\<rparr>, None))"

definition handleDragOver :: "state \<Rightarrow> state" where
  "handleDragOver st = st\<lparr>isDragging := True\<rparr>"

definition handleDragLeave :: "state \<Rightarrow> state" where
  "handleDragLeave st = st\<lparr>isDragging := False\<rparr>"

definition handleDrop :: "File option \<Rightarrow> state \<Rightarrow> state \<times> File option" where
  "handleDrop file st =
     (let st1 = st\<lparr>isDragging := False\<rparr>
      in case file of
           None \<Rightarrow> (st1, None)
         | Some f \<Rightarrow>
             if file_type f = ''application/pdf'' then (loadPdf_begin st1, Some f)
             else (st1\<lparr>error := Some ''Please drop a PDF file.''\<rparr>, None))"

section \<open>Extracting pages\<close>

text \<open>The loop \<open>for (let i = start; i <= end; i++) pageIndices.push(i)\<close>.\<close>

function pageIndices_loop :: "int \<Rightarrow> int \<Rightarrow> int list \<Rightarrow> int list" where
  "pageIndices_loop i endIdx acc =
     (if i \<le> endIdx then pageIndices_loop (i + 1) endIdx (acc @ [i]) else acc)"
  by pat_completeness auto
termination
  by (relation "measure (\<lambda>(i, endIdx, acc). nat (endIdx + 1 - i))") auto

declare pageIndices_loop.simps [simp del]

definition pageIndices :: "int \<Rightarrow> int \<Rightarrow> int list" where
  "pageIndices start endIdx = pageIndices_loop start endIdx []"

definition addPage :: "'p list \<Rightarrow> 'p \<Rightarrow> 'p list" where
  "addPage doc page = doc @ [page]"

text \<open>
  The first half of the \<open>try\<close> block: the destination document as it stands when
  \<open>save\<close> is called, or \<open>None\<close> when re-opening the source or copying throws.
\<close>

definition newPdf_pages :: "'p pdf_lib \<Rightarrow> PdfInfo \<Rightarrow> int \<Rightarrow> int \<Rightarrow> 'p list option" where
  "newPdf_pages lib info sp ep =
     (case load lib (data info) of
        None \<Rightarrow> None
      | Some sourcePdf \<Rightarrow>
          (let newPdf = [];
               start = sp - 1;
               endIdx = ep - 1
           in case copyPages lib sourcePdf (pageIndices start endIdx) of
                None \<Rightarrow> None
              | Some pages \<Rightarrow> Some (foldl addPage newPdf pages)))"

text \<open>\<open>String.prototype.replace\<close> with a string pattern: the first occurrence only.\<close>

fun replace_first :: "string \<Rightarrow> string \<Rightarrow> string \<Rightarrow> string" where
  "replace_first pat rep [] = (if pat = [] then rep else [])"
| "replace_first pat rep (c # cs) =
     (if take (length pat) (c # cs) = pat then rep @ drop (length pat) (c # cs)
      else c # replace_first pat rep cs)"

definition download_filename :: "PdfInfo \<Rightarrow> int \<Rightarrow> int \<Rightarrow> string" where
  "download_filename info sp ep =
     (let baseName = replace_first ''.pdf'' '''' (name info)
      in baseName @ ''_pages_'' @ show_int sp @ ''-'' @ show_int ep @ ''.pdf'')"

text \<open>
  \<open>extractPages\<close> is asynchronous too. Its closure holds the \<open>pdfInfo\<close>, \<open>startPage\<close>
  and \<open>endPage\<close> of the render in which the button was clicked; they are what the
  continuation works with.
\<close>

type_synonym extraction = "PdfInfo \<times> int \<times> int"

definition extractPages_begin :: "state \<Rightarrow> state \<times> extraction option" where
  "extractPages_begin st =
     (case pdfInfo st of
        None \<Rightarrow> (st, None)
      | Some info \<Rightarrow>
          (st\<lparr>error := None, isProcessing := True\<rparr>, Some (info, startPage st, endPage st)))"

definition extractPages_try :: "'p pdf_lib \<Rightarrow> extraction \<Rightarrow> download option" where
  "extractPages_try lib x =
     (case x of (info, sp, ep) \<Rightarrow>
        (case newPdf_pages lib info sp ep of
           None \<Rightarrow> None
         | Some newPdf \<Rightarrow>
             (case save lib newPdf of
                None \<Rightarrow> None
              | Some pdfBytes \<Rightarrow>
                  Some \<lparr>href_blob = \<lparr>blob_parts = pdfBytes, blob_type = ''application/pdf''\<rparr>,
                        download_name = download_filename info sp ep\<rparr>)))"

definition extractPages_settle ::
  "'p pdf_lib \<Rightarrow> extraction \<Rightarrow> state \<Rightarrow> state \<times> download option" where
  "extractPages_settle lib x st =
     (case extractPages_try lib x of
        Some d \<Rightarrow> (st\<lparr>isProcessing := False\<rparr>, Some d)
      | None \<Rightarrow>
          (st\<lparr>error := Some ''Something went wrong. Please try again.'',
              isProcessing := False\<rparr>, None))"

definition extractPages :: "'p pdf_lib \<Rightarrow> state \<Rightarrow> state \<times> download option" where
  "extractPages lib st =
     (case extractPages_begin st of
        (st1, None) \<Rightarrow> (st1, None)
      | (st1, Some x) \<Rightarrow> extractPages_settle lib x st1)"

section \<open>The page range and the controls that set it\<close>

definition isValidRange :: "state \<Rightarrow> bool" where
  "isValidRange st =
     (case pdfInfo st of
        None \<Rightarrow> False
      | Some info \<Rightarrow>
          startPage st \<ge> 1 \<and> endPage st \<ge> startPage st \<and> endPage st \<le> pageCount info)"

definition resetFile :: "state \<Rightarrow> state" where
  "resetFile st = st\<lparr>pdfInfo := None, startPage := 1, endPage := 1, error := None\<rparr>"

definition selectedPageCount :: "state \<Rightarrow> int" where
  "selectedPageCount st = (if isValidRange st then endPage st - startPage st + 1 else 0)"

text \<open>The \<open>disabled\<close> attribute of the download button.\<close>

definition extract_disabled :: "state \<Rightarrow> bool" where
  "extract_disabled st = (\<not> isValidRange st \<or> isProcessing st)"

text \<open>\<open>Array.from({ length: pageCount }, (_, i) => i + 1)\<close>.\<close>

definition pageNumbers :: "state \<Rightarrow> int list" where
  "pageNumbers st =
     (case pdfInfo st of
        None \<Rightarrow> []
      | Some info \<Rightarrow> map (\<lambda>i. int i + 1) [0 ..< nat (pageCount info)])"

definition isPageSelected :: "state \<Rightarrow> int \<Rightarrow> bool" where
  "isPageSelected st pageNum = (pageNum \<ge> startPage st \<and> pageNum \<le> endPage st)"

text \<open>The \<open>onClick\<close> of the thumbnail of page \<open>pageNum\<close>.\<close>

definition thumb_onClick :: "int \<Rightarrow> state \<Rightarrow> state" where
  "thumb_onClick pageNum st = st\<lparr>startPage := pageNum, endPage := pageNum\<rparr>"

text \<open>
  The two number inputs. The argument is the result of \<open>parseInt(e.target.value)\<close>,
  with \<open>None\<close> for \<open>NaN\<close>; \<open>|| 1\<close> replaces \<open>NaN\<close> and \<open>0\<close> by \<open>1\<close>. The inputs are
  rendered only while a document is loaded.
\<close>

definition or_one :: "int option \<Rightarrow> int" where
  "or_one parsed = (case parsed of None \<Rightarrow> 1 | Some v \<Rightarrow> if v = 0 then 1 else v)"

definition start_onChange :: "int option \<Rightarrow> state \<Rightarrow> state" where
  "start_onChange parsed st =
     (case pdfInfo st of
        None \<Rightarrow> st
      | Some info \<Rightarrow>
          (let val = or_one parsed
           in st\<lparr>startPage := max 1 (min val (pageCount info))\<rparr>))"

definition end_onChange :: "int option \<Rightarrow> state \<Rightarrow> state" where
  "end_onChange parsed st =
     (case pdfInfo st of
        None \<Rightarrow> st
      | Some info \<Rightarrow>
          (let val = or_one parsed
           in st\<lparr>endPage := max 1 (min val (pageCount info))\<rparr>))"

text \<open>The quick-select buttons, rendered only while a document is loaded.\<close>

definition allPages_onClick :: "state \<Rightarrow> state" where
  "allPages_onClick st =
     (case pdfInfo st of
        None \<Rightarrow> st
      | Some info \<Rightarrow> st\<lparr>startPage := 1, endPage := pageCount info\<rparr>)"

definition first_onClick :: "state \<Rightarrow> state" where
  "first_onClick st = st\<lparr>startPage := 1, endPage := 1\<rparr>"

definition last_onClick :: "state \<Rightarrow> state" where
  "last_onClick st =
     (case pdfInfo st of
        None \<Rightarrow> st
      | Some info \<Rightarrow> st\<lparr>startPage := pageCount info, endPage := pageCount info\<rparr>)"

definition firstHalf_offered :: "state \<Rightarrow> bool" where
  "firstHalf_offered st =
     (case pdfInfo st of None \<Rightarrow> False | Some info \<Rightarrow> pageCount info > 2)"

definition firstHalf_onClick :: "state \<Rightarrow> state" where
  "firstHalf_onClick st =
     (case pdfInfo st of
        None \<Rightarrow> st
      | Some info \<Rightarrow> st\<lparr>startPage := 1, endPage := \<lceil>real_of_int (pageCount info) / 2\<rceil>\<rparr>)"

text \<open>The same button in the second and the third variant of \<open>page.tsx\<close>.\<close>

definition firstHalf_offered_v2 :: "state \<Rightarrow> bool" where
  "firstHalf_offered_v2 st =
     (case pdfInfo st of None \<Rightarrow> False | Some info \<Rightarrow> pageCount info > 2)"

definition firstHalf_onClick_v2 :: "state \<Rightarrow> state" where
  "firstHalf_onClick_v2 st =
     (case pdfInfo st of
        None \<Rightarrow> st
      | Some info \<Rightarrow> st\<lparr>startPage := 1, endPage := \<lceil>real_of_int (pageCount info) / 2\<rceil>\<rparr>)"

definition firstHalf_offered_v3 :: "state \<Rightarrow> bool" where
  "firstHalf_offered_v3 st =
     (case pdfInfo st of None \<Rightarrow> False | Some info \<Rightarrow> pageCount info > 1)"

definition firstHalf_onClick_v3 :: "state \<Rightarrow> state" where
  "firstHalf_onClick_v3 st =
     (case pdfInfo st of
        None \<Rightarrow> st
      | Some info \<Rightarrow> st\<lparr>startPage := 1, endPage := \<lceil>real_of_int (pageCount info) / 2\<rceil>\<rparr>)"

section \<open>The handlers as an event system\<close>

text \<open>
  The browser runs one handler or one continuation at a time. Between the start of an
  asynchronous handler and its continuation any other event may be handled, so a system
  state is the React state together with the loads and extractions that have started
  and not yet settled, and the downloads offered so far. An event is enabled when the
  control it comes from is rendered and not disabled: the drop zone and the file input
  in the upload view (\<open>!pdfInfo\<close>), everything else in the editor view.
\<close>

record sys =
  ui :: state
  loads :: "File list"
  extractions :: "extraction list"
  offered :: "download list"

datatype event =
    FileSelect "File option"
  | Drop "File option"
  | DragOver
  | DragLeave
  | LoadSettles nat
  | ClickExtract
  | ExtractSettles nat
  | ClickReset
  | TypeStart "int option"
  | TypeEnd "int option"
  | ClickAll
  | ClickFirst
  | ClickLast
  | ClickFirstHalf
  | ClickThumb int

definition initial_sys :: sys where
  "initial_sys = \<lparr>ui = initial_state, loads = [], extractions = [], offered = []\<rparr>"

definition upload_view :: "state \<Rightarrow> bool" where
  "upload_view st = (pdfInfo st = None)"

definition remove_nth :: "nat \<Rightarrow> 'a list \<Rightarrow> 'a list" where
  "remove_nth k xs = take k xs @ drop (Suc k) xs"

definition started :: "'a option \<Rightarrow> 'a list" where
  "started x = (case x of None \<Rightarrow> [] | Some a \<Rightarrow> [a])"

definition in_upload :: "(state \<Rightarrow> state) \<Rightarrow> sys \<Rightarrow> sys option" where
  "in_upload h s = (if upload_view (ui s) then Some (s\<lparr>ui := h (ui s)\<rparr>) else None)"

definition in_editor :: "bool \<Rightarrow> (state \<Rightarrow> state) \<Rightarrow> sys \<Rightarrow> sys option" where
  "in_editor rendered h s =
     (if \<not> upload_view (ui s) \<and> rendered then Some (s\<lparr>ui := h (ui s)\<rparr>) else None)"

fun fire :: "'p pdf_lib \<Rightarrow> event \<Rightarrow> sys \<Rightarrow> sys option" where
  "fire lib (FileSelect file) s =
     (if upload_view (ui s)
      then (case handleFileSelect file (ui s) of
              (st', f) \<Rightarrow> Some (s\<lparr>ui := st', loads := loads s @ started f\<rparr>))
      else None)"
| "fire lib (Drop file) s =
     (if upload_view (ui s)
      then (case handleDrop file (ui s) of
              (st', f) \<Rightarrow> Some (s\<lparr>ui := st', loads := loads s @ started f\<rparr>))
      else None)"
| "fire lib DragOver s = in_upload handleDragOver s"
| "fire lib DragLeave s = in_upload handleDragLeave s"
| "fire lib (LoadSettles k) s =
     (if k < length (loads s)
      then Some (s\<lparr>ui := loadPdf_settle lib (loads s ! k) (ui s),
                   loads := remove_nth k (loads s)\<rparr>)
      else None)"
| "fire lib ClickExtract s =
     (if \<not> upload_view (ui s) \<and> \<not> extract_disabled (ui s)
      then (case extractPages_begin (ui s) of
              (st', x) \<Rightarrow> Some (s\<lparr>ui := st', extractions := extractions s @ started x\<rparr>))
      else None)"
| "fire lib (ExtractSettles k) s =
     (if k < length (extractions s)
      then (case extractPages_settle lib (extractions s ! k) (ui s) of
              (st', d) \<Rightarrow> Some (s\<lparr>ui := st',
                                   extractions := remove_nth k (extractions s),
                                   offered := offered s @ started d\<rparr>))
      else None)"
| "fire lib ClickReset s = in_editor True resetFile s"
| "fire lib (TypeStart parsed) s = in_editor True (start_onChange parsed) s"
| "fire lib (TypeEnd parsed) s = in_editor True (end_onChange parsed) s"
| "fire lib ClickAll s = in_editor True allPages_onClick s"
| "fire lib ClickFirst s = in_editor True first_onClick s"
| "fire lib ClickLast s = in_editor True last_onClick s"
| "fire lib ClickFirstHalf s = in_editor (firstHalf_offered (ui s)) firstHalf_onClick s"
| "fire lib (ClickThumb p) s = in_editor (p \<in> set (pageNumbers (ui s))) (thumb_onClick p) s"

fun run :: "'p pdf_lib \<Rightarrow> event list \<Rightarrow> sys \<Rightarrow> sys option" where
  "run lib [] s = Some s"
| "run lib (ev # evs) s =
     (case fire lib ev s of None \<Rightarrow> None | Some s' \<Rightarrow> run lib evs s')"

text \<open>The events that call \<open>loadPdf\<close>.\<close>

fun starts_load :: "event \<Rightarrow> bool" where
  "starts_load (FileSelect (Some f)) = (file_type f = ''application/pdf'')"
| "starts_load (Drop (Some f)) = (file_type f = ''application/pdf'')"
| "starts_load ev = False"

definition loads_in_flight :: "'p pdf_lib \<Rightarrow> event list \<Rightarrow> nat option" where
  "loads_in_flight lib evs = map_option (length \<circ> loads) (run lib evs initial_sys)"

definition extractions_in_flight :: "'p pdf_lib \<Rightarrow> event list \<Rightarrow> nat option" where
  "extractions_in_flight lib evs = map_option (length \<circ> extractions) (run lib evs initial_sys)"

section \<open>A stand-in for the library\<close>

text \<open>
  A small implementation of the library interface, used to run the handlers on
  concrete inputs: a document is opened from a non-empty buffer and has one page per
  byte, \<open>copyPages\<close> returns the pages at the given indices and throws when an index
  is out of range, and saving writes the pages back.
\<close>

definition copies_from :: "'p list \<Rightarrow> int list \<Rightarrow> 'p list option" where
  "copies_from src idxs =
     (if list_all (\<lambda>i. 0 \<le> i \<and> i < int (length src)) idxs
      then Some (map (\<lambda>i. src ! nat i) idxs) else None)"

definition byte_lib :: "nat pdf_lib" where
  "byte_lib =
     \<lparr>load = (\<lambda>b. if b = [] then None else Some b),
      copyPages = copies_from,
      save = Some,
      createObjectURL = (\<lambda>b. ''blob:doc'')\<rparr>"

text \<open>
  The part of the contract of \<open>copyPages\<close> that the extraction relies on: for indices
  inside the source document it returns the pages at these indices, in the order of the
  index list.
\<close>

definition copyPages_contract :: "'p pdf_lib \<Rightarrow> bool" where
  "copyPages_contract lib =
     (\<forall>src idxs. (\<forall>i \<in> set idxs. 0 \<le> i \<and> i < int (length src)) \<longrightarrow>
        copyPages lib src idxs = Some (map (\<lambda>i. src ! nat i) idxs))"

definition ten_pages :: File where
  "ten_pages =
     \<lparr>file_name = ''report.pdf'', file_type = ''application/pdf'', file_size = 2048,
      file_arrayBuffer = Some [10, 11, 12, 13, 14, 15, 16, 17, 18, 19]\<rparr>"

definition ten_info :: PdfInfo where
  "ten_info =
     \<lparr>name = ''report.pdf'', pageCount = 10, size_str = ''2.0 KB'',
      data = [10, 11, 12, 13, 14, 15, 16, 17, 18, 19], url = ''blob:doc''\<rparr>"

definition ready_state :: "int \<Rightarrow> int \<Rightarrow> state" where
  "ready_state sp ep =
     \<lparr>pdfInfo = Some ten_info, startPage = sp, endPage = ep, isDragging = False,
      isProcessing = False, error = None\<rparr>"

text \<open>
  The same stand-in, except that it opens every buffer as a document without pages, as
  the library does for a PDF whose page tree is empty.
\<close>

definition blank_lib :: "nat pdf_lib" where
  "blank_lib = byte_lib\<lparr>load := \<lambda>b. Some []\<rparr>"

definition blank_state :: state where
  "blank_state = loadPdf blank_lib ten_pages initial_state"

definition ready_sys :: "int \<Rightarrow> int \<Rightarrow> sys" where
  "ready_sys sp ep = \<lparr>ui = ready_state sp ep, loads = [], extractions = [], offered = []\<rparr>"

definition processing_after :: "'p pdf_lib \<Rightarrow> event list \<Rightarrow> bool option" where
  "processing_after lib evs = map_option (isProcessing \<circ> ui) (run lib evs initial_sys)"

text \<open>
  The situation the download button's \<open>disabled\<close> attribute maintains as long as no
  load is in flight: an extraction is in flight only while the flag is set, and then
  only one.
\<close>

definition gated :: "sys \<Rightarrow> bool" where
  "gated s =
     (loads s = [] \<and> length (extractions s) \<le> (if isProcessing (ui s) then 1 else 0))"

section \<open>The download name as the specification words it\<close>

text \<open>
  The specification names the download after the source name with its \<open>.pdf\<close>
  extension removed. These two definitions follow that wording, for comparison with
  \<open>download_filename\<close>.
\<close>

definition spec_basename :: "string \<Rightarrow> string" where
  "spec_basename n =
     (if 4 \<le> length n \<and> drop (length n - 4) n = ''.pdf'' then take (length n - 4) n else n)"

definition spec_download_filename :: "PdfInfo \<Rightarrow> int \<Rightarrow> int \<Rightarrow> string" where
  "spec_download_filename info sp ep =
     spec_basename (name info) @ ''_pages_'' @ show_int sp @ ''-'' @ show_int ep @ ''.pdf''"

section \<open>Auxiliary facts\<close>

lemma pageIndices_loop_upto: "pageIndices_loop i e acc = acc @ [i..e]"
proof (induction i e acc rule: pageIndices_loop.induct)
  case (1 i endIdx acc)
  show ?case
  proof (cases "i \<le> endIdx")
    case True
    then have "pageIndices_loop i endIdx acc = pageIndices_loop (i + 1) endIdx (acc @ [i])"
      by (subst pageIndices_loop.simps) simp
    also have "\<dots> = (acc @ [i]) @ [i + 1..endIdx]"
      using 1 True by simp
    also have "\<dots> = acc @ [i..endIdx]"
      using True by (simp add: upto_rec1)
    finally show ?thesis .
  next
    case False
    then show ?thesis
      by (subst pageIndices_loop.simps) simp
  qed
qed

lemma pageIndices_upto: "pageIndices s e = [s..e]"
  by (simp add: pageIndices_def pageIndices_loop_upto)

lemma foldl_addPage: "foldl addPage doc pages = doc @ pages"
  by (induction pages arbitrary: doc) (simp_all add: addPage_def)

lemma ceiling_half: "\<lceil>real_of_int n / 2\<rceil> = (n + 1) div 2"
  by linarith

lemma map_nth_upto_slice:
  assumes "1 \<le> s" "s \<le> e" "e \<le> int (length src)"
  shows "map (\<lambda>i. src ! nat i) [s - 1..e - 1] =
         take (nat (e - s + 1)) (drop (nat (s - 1)) src)"
proof (rule nth_equalityI)
  show "length (map (\<lambda>i. src ! nat i) [s - 1..e - 1]) =
        length (take (nat (e - s + 1)) (drop (nat (s - 1)) src))"
    using assms by simp
next
  fix k
  assume "k < length (map (\<lambda>i. src ! nat i) [s - 1..e - 1])"
  then have k: "int k < e - s + 1"
    by simp
  then have "[s - 1..e - 1] ! k = s - 1 + int k"
    by simp
  moreover have "nat (s - 1 + int k) = nat (s - 1) + k"
    using assms by simp
  ultimately show "map (\<lambda>i. src ! nat i) [s - 1..e - 1] ! k =
                   take (nat (e - s + 1)) (drop (nat (s - 1)) src) ! k"
    using k assms by simp
qed

lemma byte_lib_contract: "copyPages_contract byte_lib"
  by (simp add: copyPages_contract_def byte_lib_def copies_from_def list_all_iff)

lemma show_nat_digit: "n < 10 \<Longrightarrow> show_nat n = [digit n]"
  by (subst show_nat.simps) simp

lemma formatFileSize_2048: "formatFileSize 2048 = ''2.0 KB''"
  by (simp add: formatFileSize_def toFixed1_def show_nat_digit digit_def)

section \<open>Extraction copies the selected pages\<close>

text \<open>
  Claim C1. For a loaded document (its bytes open to the page list \<open>src\<close>, whose length
  is the recorded page count) and a valid range \<open>1 \<le> startPage \<le> endPage \<le> pageCount\<close>,
  \<open>extractPages\<close> builds the index list \<open>[startPage - 1 .. endPage - 1]\<close> in increasing
  order, copies these pages into a new empty document and appends them in that order:
  the destination document is the slice of \<open>endPage - startPage + 1\<close> pages of the
  source that starts at page \<open>startPage\<close>, and it is this document that is saved and
  offered for download. The library is assumed to copy the pages at in-range indices
  in the order of the index list.
\<close>

theorem extractPages_copies_range:
  assumes contract: "copyPages_contract lib"
    and info: "pdfInfo st = Some info"
    and src: "load lib (data info) = Some src"
    and count: "pageCount info = int (length src)"
    and range: "1 \<le> startPage st" "startPage st \<le> endPage st" "endPage st \<le> pageCount info"
  shows "pageIndices (startPage st - 1) (endPage st - 1) = [startPage st - 1..endPage st - 1]
       \<and> sorted_wrt (<) (pageIndices (startPage st - 1) (endPage st - 1))
       \<and> newPdf_pages lib info (startPage st) (endPage st) =
           Some (take (nat (endPage st - startPage st + 1)) (drop (nat (startPage st - 1)) src))
       \<and> int (length (take (nat (endPage st - startPage st + 1))
                        (drop (nat (startPage st - 1)) src))) =
           endPage st - startPage st + 1
       \<and> snd (extractPages lib st) =
           map_option
             (\<lambda>pdfBytes. \<lparr>href_blob = \<lparr>blob_parts = pdfBytes, blob_type = ''application/pdf''\<rparr>,
                          download_name = download_filename info (startPage st) (endPage st)\<rparr>)
             (save lib (take (nat (endPage st - startPage st + 1))
                          (drop (nat (startPage st - 1)) src)))"
proof -
  let ?s = "startPage st" and ?e = "endPage st"
  let ?out = "take (nat (?e - ?s + 1)) (drop (nat (?s - 1)) src)"
  have idx: "pageIndices (?s - 1) (?e - 1) = [?s - 1..?e - 1]"
    by (rule pageIndices_upto)
  have inside: "\<forall>i \<in> set [?s - 1..?e - 1]. 0 \<le> i \<and> i < int (length src)"
    using range count by auto
  have copy: "copyPages lib src [?s - 1..?e - 1] = Some (map (\<lambda>i. src ! nat i) [?s - 1..?e - 1])"
    using contract inside unfolding copyPages_contract_def by blast
  have slice: "map (\<lambda>i. src ! nat i) [?s - 1..?e - 1] = ?out"
    using range count by (intro map_nth_upto_slice) simp_all
  have new: "newPdf_pages lib info ?s ?e = Some ?out"
    by (simp add: newPdf_pages_def src idx copy slice foldl_addPage)
  have len: "int (length ?out) = ?e - ?s + 1"
    using range count by simp
  have dl: "snd (extractPages lib st) =
           map_option
             (\<lambda>pdfBytes. \<lparr>href_blob = \<lparr>blob_parts = pdfBytes, blob_type = ''application/pdf''\<rparr>,
                          download_name = download_filename info ?s ?e\<rparr>)
             (save lib ?out)"
    by (simp add: extractPages_def extractPages_begin_def extractPages_settle_def
        extractPages_try_def info new split: option.split)
  show ?thesis
    using idx new len dl by simp
qed

theorem extractPages_copies_range_witness:
  "copyPages_contract byte_lib
   \<and> pdfInfo (ready_state 3 5) = Some ten_info
   \<and> load byte_lib (data ten_info) = Some [10, 11, 12, 13, 14, 15, 16, 17, 18, 19]
   \<and> pageCount ten_info = int (length [10, 11, 12, 13, 14, 15, 16, 17, 18, 19 :: nat])
   \<and> 1 \<le> startPage (ready_state 3 5)
   \<and> startPage (ready_state 3 5) \<le> endPage (ready_state 3 5)
   \<and> endPage (ready_state 3 5) \<le> pageCount ten_info
   \<and> newPdf_pages byte_lib ten_info 3 5 = Some [12, 13, 14]
   \<and> snd (extractPages byte_lib (ready_state 3 5)) =
       Some \<lparr>href_blob = \<lparr>blob_parts = [12, 13, 14], blob_type = ''application/pdf''\<rparr>,
             download_name = download_filename ten_info 3 5\<rparr>"
  using extractPages_copies_range [of byte_lib "ready_state 3 5" ten_info
      "[10, 11, 12, 13, 14, 15, 16, 17, 18, 19]"] byte_lib_contract
  by (simp add: ready_state_def ten_info_def byte_lib_def)

section \<open>The range validator\<close>

text \<open>
  Claim C2, as amended. While a document is loaded, a bound typed into either number
  input is stored as \<open>max 1 (min val pageCount)\<close>: it is at least \<open>1\<close>, it is at most
  \<open>pageCount\<close> when the document has a page, and it is \<open>1\<close> when the document has
  none. The range is valid exactly when \<open>startPage \<ge> 1\<close>, \<open>endPage \<ge> startPage\<close> and
  \<open>endPage \<le> pageCount\<close>; for a valid range the displayed count is
  \<open>endPage - startPage + 1\<close>, and for an invalid one the download button is disabled.
\<close>

theorem range_validator:
  assumes info: "pdfInfo st = Some info"
  shows "start_onChange parsed st = st\<lparr>startPage := max 1 (min (or_one parsed) (pageCount info))\<rparr>
       \<and> end_onChange parsed st = st\<lparr>endPage := max 1 (min (or_one parsed) (pageCount info))\<rparr>
       \<and> 1 \<le> startPage (start_onChange parsed st)
       \<and> 1 \<le> endPage (end_onChange parsed st)
       \<and> (1 \<le> pageCount info \<longrightarrow>
            startPage (start_onChange parsed st) \<le> pageCount info
            \<and> endPage (end_onChange parsed st) \<le> pageCount info)
       \<and> (pageCount info < 1 \<longrightarrow>
            startPage (start_onChange parsed st) = 1
            \<and> endPage (end_onChange parsed st) = 1)
       \<and> (isValidRange st \<longleftrightarrow>
            startPage st \<ge> 1 \<and> endPage st \<ge> startPage st \<and> endPage st \<le> pageCount info)
       \<and> (isValidRange st \<longrightarrow> selectedPageCount st = endPage st - startPage st + 1)
       \<and> (\<not> isValidRange st \<longrightarrow> extract_disabled st)"
  by (simp add: start_onChange_def end_onChange_def isValidRange_def selectedPageCount_def
      extract_disabled_def info Let_def)

theorem range_validator_witness:
  "pdfInfo (ready_state 5 3) = Some ten_info \<and> 1 \<le> pageCount ten_info
   \<and> startPage (start_onChange (Some 42) (ready_state 5 3)) = 10
   \<and> endPage (end_onChange None (ready_state 5 3)) = 1
   \<and> \<not> isValidRange (ready_state 5 3)
   \<and> extract_disabled (ready_state 5 3)
   \<and> pdfInfo blank_state = Some (ten_info\<lparr>pageCount := 0\<rparr>)
   \<and> pageCount (ten_info\<lparr>pageCount := 0\<rparr>) < 1
   \<and> startPage (start_onChange (Some 42) blank_state) = 1"
proof -
  have b: "pdfInfo blank_state = Some (ten_info\<lparr>pageCount := 0\<rparr>)"
    by (simp add: blank_state_def blank_lib_def byte_lib_def loadPdf_def loadPdf_begin_def
        loadPdf_settle_def loadPdf_try_def ten_pages_def ten_info_def initial_state_def
        formatFileSize_2048)
  have z: "startPage (start_onChange (Some 42) blank_state) = 1"
    using range_validator [OF b, of "Some 42"] by (simp add: ten_info_def)
  have r: "pdfInfo (ready_state 5 3) = Some ten_info"
    by (simp add: ready_state_def)
  show ?thesis
    using range_validator [OF r, of "Some 42"] range_validator [OF r, of None] b z
    by (simp add: ready_state_def ten_info_def or_one_def)
qed

text \<open>
  Claim C2, as stated, fails for a loaded document without pages: \<open>loadPdf\<close> accepts
  it with the range \<open>[1, 0]\<close>, and a typed bound is then stored as \<open>1\<close>, which is not
  in \<open>[1, pageCount]\<close>.
\<close>

theorem zero_page_clamp_counterexample:
  "pdfInfo blank_state = Some (ten_info\<lparr>pageCount := 0\<rparr>)
   \<and> startPage blank_state = 1
   \<and> endPage blank_state = 0
   \<and> startPage (start_onChange (Some 5) blank_state) = 1
   \<and> endPage (end_onChange (Some 5) blank_state) = 1
   \<and> \<not> startPage (start_onChange (Some 5) blank_state) \<le> pageCount (ten_info\<lparr>pageCount := 0\<rparr>)
   \<and> \<not> endPage (end_onChange (Some 5) blank_state) \<le> pageCount (ten_info\<lparr>pageCount := 0\<rparr>)"
  by (simp add: blank_state_def blank_lib_def byte_lib_def loadPdf_def loadPdf_begin_def
      loadPdf_settle_def loadPdf_try_def ten_pages_def ten_info_def initial_state_def
      formatFileSize_2048 start_onChange_def end_onChange_def or_one_def)

section \<open>Loading replaces the document or reports an error\<close>



section \<open>No download unless the document was saved\<close>



section \<open>Files that are not PDFs\<close>

text \<open>
  Claim C5. A file whose declared type is not \<open>application/pdf\<close>, whether chosen in
  the picker or dropped, is rejected: no load is started, the error message is set and
  the loaded document is left as it is.
\<close>

theorem nonPdf_rejected:
  assumes "file_type f \<noteq> ''application/pdf''"
  shows "handleFileSelect (Some f) st = (st\<lparr>error := Some ''Please select a PDF file.''\<rparr>, None)
       \<and> handleDrop (Some f) st =
           (st\<lparr>isDragging := False, error := Some ''Please drop a PDF file.''\<rparr>, None)
       \<and> pdfInfo (fst (handleFileSelect (Some f) st)) = pdfInfo st
       \<and> pdfInfo (fst (handleDrop (Some f) st)) = pdfInfo st"
  using assms by (simp add: handleFileSelect_def handleDrop_def Let_def)

theorem nonPdf_rejected_witness:
  "file_type (ten_pages\<lparr>file_type := ''image/png''\<rparr>) \<noteq> ''application/pdf''
   \<and> handleFileSelect (Some (ten_pages\<lparr>file_type := ''image/png''\<rparr>)) (ready_state 3 5) =
       ((ready_state 3 5)\<lparr>error := Some ''Please select a PDF file.''\<rparr>, None)
   \<and> handleDrop (Some (ten_pages\<lparr>file_type := ''image/png''\<rparr>)) (ready_state 3 5) =
       ((ready_state 3 5)\<lparr>error := Some ''Please drop a PDF file.''\<rparr>, None)"
  using nonPdf_rejected [of "ten_pages\<lparr>file_type := ''image/png''\<rparr>" "ready_state 3 5"]
  by (simp add: ten_pages_def ready_state_def)

section \<open>The name of the download\<close>

text \<open>
  Claim C6. The download is named after the source name without its \<open>.pdf\<close>
  extension, followed by \<open>_pages_<start>-<end>.pdf\<close>. The code removes the first
  occurrence of \<open>.pdf\<close> in the name, not the extension: for the source
  \<open>report.pdf.signed.pdf\<close> and the range \<open>[3, 5]\<close> it produces
  \<open>report.signed.pdf_pages_3-5.pdf\<close>, where the name described is
  \<open>report.pdf.signed_pages_3-5.pdf\<close>.
\<close>

theorem download_filename_first_occurrence:
  "download_filename (ten_info\<lparr>name := ''report.pdf.signed.pdf''\<rparr>) 3 5 =
     ''report.signed.pdf_pages_3-5.pdf''
   \<and> spec_download_filename (ten_info\<lparr>name := ''report.pdf.signed.pdf''\<rparr>) 3 5 =
     ''report.pdf.signed_pages_3-5.pdf''"
  by (simp add: download_filename_def spec_download_filename_def spec_basename_def ten_info_def
      show_int_def show_nat_digit digit_def)

section \<open>Quick-select presets\<close>

text \<open>
  Claim C7. With a document loaded, "All pages" sets the range to \<open>[1, pageCount]\<close>,
  "First" to \<open>[1, 1]\<close>, "Last" to \<open>[pageCount, pageCount]\<close> and "First half", which
  is offered when \<open>pageCount > 2\<close>, to \<open>[1, ceil(pageCount / 2)]\<close>; nothing else in
  the state changes.
\<close>

theorem quick_select_presets:
  assumes info: "pdfInfo st = Some info"
  shows "allPages_onClick st = st\<lparr>startPage := 1, endPage := pageCount info\<rparr>
       \<and> first_onClick st = st\<lparr>startPage := 1, endPage := 1\<rparr>
       \<and> last_onClick st = st\<lparr>startPage := pageCount info, endPage := pageCount info\<rparr>
       \<and> firstHalf_onClick st =
           st\<lparr>startPage := 1, endPage := \<lceil>real_of_int (pageCount info) / 2\<rceil>\<rparr>
       \<and> (firstHalf_offered st \<longleftrightarrow> pageCount info > 2)"
  by (simp add: allPages_onClick_def first_onClick_def last_onClick_def firstHalf_onClick_def
      firstHalf_offered_def info)

theorem quick_select_presets_witness:
  "pdfInfo (ready_state 3 5) = Some ten_info
   \<and> allPages_onClick (ready_state 3 5) = ready_state 1 10
   \<and> first_onClick (ready_state 3 5) = ready_state 1 1
   \<and> last_onClick (ready_state 3 5) = ready_state 10 10
   \<and> firstHalf_onClick (ready_state 3 5) = ready_state 1 5
   \<and> firstHalf_offered (ready_state 3 5)"
  using quick_select_presets [of "ready_state 3 5" ten_info]
  by (simp add: ready_state_def ten_info_def ceiling_half)

section \<open>One extraction at a time, but not one load at a time\<close>

lemma fire_keeps_gated:
  assumes step: "fire lib ev s = Some s'"
    and ev: "\<not> starts_load ev"
    and gate: "gated s"
  shows "gated s'"
proof (cases ev)
  case (FileSelect picked)
  with step ev gate show ?thesis
    by (cases picked)
      (auto simp add: gated_def handleFileSelect_def started_def split: if_splits)
next
  case (Drop dropped)
  with step ev gate show ?thesis
    by (cases dropped)
      (auto simp add: gated_def handleDrop_def started_def Let_def split: if_splits)
next
  case DragOver
  with step gate show ?thesis
    by (auto simp add: gated_def in_upload_def handleDragOver_def split: if_splits)
next
  case DragLeave
  with step gate show ?thesis
    by (auto simp add: gated_def in_upload_def handleDragLeave_def split: if_splits)
next
  case (LoadSettles k)
  with step gate show ?thesis
    by (simp add: gated_def)
next
  case ClickExtract
  with step gate show ?thesis
    by (auto simp add: gated_def extract_disabled_def extractPages_begin_def started_def
        split: if_splits option.splits)
next
  case (ExtractSettles k)
  with step have k: "k < length (extractions s)"
    by (simp split: if_splits)
  with gate have "length (extractions s) = 1" and "k = 0"
    by (auto simp add: gated_def split: if_splits)
  then have gone: "remove_nth k (extractions s) = []"
    by (cases "extractions s") (simp_all add: remove_nth_def)
  from step ExtractSettles k gate gone show ?thesis
    by (auto simp add: gated_def extractPages_settle_def split: option.splits)
next
  case ClickReset
  with step gate show ?thesis
    by (auto simp add: gated_def in_editor_def resetFile_def split: if_splits)
next
  case (TypeStart parsed)
  with step gate show ?thesis
    by (auto simp add: gated_def in_editor_def start_onChange_def Let_def
        split: if_splits option.splits)
next
  case (TypeEnd parsed)
  with step gate show ?thesis
    by (auto simp add: gated_def in_editor_def end_onChange_def Let_def
        split: if_splits option.splits)
next
  case ClickAll
  with step gate show ?thesis
    by (auto simp add: gated_def in_editor_def allPages_onClick_def
        split: if_splits option.splits)
next
  case ClickFirst
  with step gate show ?thesis
    by (auto simp add: gated_def in_editor_def first_onClick_def split: if_splits)
next
  case ClickLast
  with step gate show ?thesis
    by (auto simp add: gated_def in_editor_def last_onClick_def
        split: if_splits option.splits)
next
  case ClickFirstHalf
  with step gate show ?thesis
    by (auto simp add: gated_def in_editor_def firstHalf_onClick_def
        split: if_splits option.splits)
next
  case (ClickThumb p)
  with step gate show ?thesis
    by (auto simp add: gated_def in_editor_def thumb_onClick_def split: if_splits)
qed

lemma run_keeps_gated:
  assumes "run lib evs s = Some s'"
    and "\<forall>ev \<in> set evs. \<not> starts_load ev"
    and "gated s"
  shows "gated s'"
  using assms
proof (induction evs arbitrary: s)
  case Nil
  then show ?case by simp
next
  case (Cons ev evs)
  from Cons.prems(1) obtain s1
    where s1: "fire lib ev s = Some s1" and rest: "run lib evs s1 = Some s'"
    by (auto split: option.splits)
  from Cons.prems(2) have ev: "\<not> starts_load ev" and evs: "\<forall>ev \<in> set evs. \<not> starts_load ev"
    by simp_all
  have "gated s1"
    by (rule fire_keeps_gated [OF s1 ev Cons.prems(3)])
  then show ?case
    by (rule Cons.IH [OF rest evs])
qed

text \<open>
  Claim C8, as amended. The processing flag disables the download button, so in any
  run that starts with nothing in flight and the flag clear, and in which no load is
  started, at most one extraction is in flight, and while it is the button is disabled
  and a click on it is not accepted. The picker and the drop zone do not consult the
  flag: in the upload view a PDF file that is selected or dropped starts a load
  whatever the flag says and however many loads are in flight.
\<close>

theorem extract_button_gate:
  assumes run: "run lib evs s0 = Some s"
    and quiet: "\<forall>ev \<in> set evs. \<not> starts_load ev"
    and idle: "loads s0 = []" "extractions s0 = []" "\<not> isProcessing (ui s0)"
  shows "length (extractions s) \<le> 1
       \<and> (extractions s \<noteq> [] \<longrightarrow>
            isProcessing (ui s) \<and> extract_disabled (ui s) \<and> fire lib ClickExtract s = None)
       \<and> (upload_view (ui t) \<and> file_type f = ''application/pdf'' \<longrightarrow>
            map_option loads (fire lib (Drop (Some f)) t) = Some (loads t @ [f])
            \<and> map_option loads (fire lib (FileSelect (Some f)) t) = Some (loads t @ [f]))"
proof -
  have "gated s0"
    using idle by (simp add: gated_def)
  then have g: "gated s"
    by (rule run_keeps_gated [OF run quiet])
  have one: "length (extractions s) \<le> 1"
    using g by (simp add: gated_def split: if_splits)
  have busy: "extractions s \<noteq> [] \<longrightarrow>
            isProcessing (ui s) \<and> extract_disabled (ui s) \<and> fire lib ClickExtract s = None"
    using g by (auto simp add: gated_def extract_disabled_def split: if_splits)
  have open_paths: "upload_view (ui t) \<and> file_type f = ''application/pdf'' \<longrightarrow>
            map_option loads (fire lib (Drop (Some f)) t) = Some (loads t @ [f])
            \<and> map_option loads (fire lib (FileSelect (Some f)) t) = Some (loads t @ [f])"
    by (simp add: handleDrop_def handleFileSelect_def started_def Let_def)
  show ?thesis
    using one busy open_paths by simp
qed

theorem extract_button_gate_witness:
  "run byte_lib [ClickExtract] (ready_sys 3 5) =
     Some ((ready_sys 3 5)\<lparr>ui := (ready_state 3 5)\<lparr>isProcessing := True\<rparr>,
                             extractions := [(ten_info, 3, 5)]\<rparr>)
   \<and> \<not> starts_load ClickExtract
   \<and> loads (ready_sys 3 5) = [] \<and> extractions (ready_sys 3 5) = []
   \<and> \<not> isProcessing (ui (ready_sys 3 5))
   \<and> fire byte_lib ClickExtract
        ((ready_sys 3 5)\<lparr>ui := (ready_state 3 5)\<lparr>isProcessing := True\<rparr>,
                          extractions := [(ten_info, 3, 5)]\<rparr>) = None
   \<and> upload_view (ui initial_sys)
   \<and> map_option loads (fire byte_lib (Drop (Some ten_pages)) initial_sys) = Some [ten_pages]"
proof -
  have r: "run byte_lib [ClickExtract] (ready_sys 3 5) =
     Some ((ready_sys 3 5)\<lparr>ui := (ready_state 3 5)\<lparr>isProcessing := True\<rparr>,
                             extractions := [(ten_info, 3, 5)]\<rparr>)"
    by (simp add: ready_sys_def ready_state_def ten_info_def upload_view_def extract_disabled_def
        isValidRange_def extractPages_begin_def started_def)
  show ?thesis
    using extract_button_gate [OF r, of initial_sys ten_pages] r
    by (simp add: ready_sys_def ready_state_def initial_sys_def initial_state_def upload_view_def
        ten_pages_def)
qed

text \<open>
  Claim C8, as stated, fails: after one drop the flag is set, yet a second file is
  accepted and two loads are in flight; and when the earlier of two overlapping loads
  has settled and an extraction has started, the later load clears the flag on
  settling, so a second extraction starts while the first is in flight.
\<close>

theorem processing_flag_counterexample:
  "processing_after byte_lib [Drop (Some ten_pages)] = Some True
   \<and> loads_in_flight byte_lib [Drop (Some ten_pages), FileSelect (Some ten_pages)] = Some 2
   \<and> extractions_in_flight byte_lib
       [Drop (Some ten_pages), Drop (Some ten_pages), LoadSettles 0, ClickExtract,
        LoadSettles 0, ClickExtract] = Some 2"
  by (simp add: processing_after_def loads_in_flight_def extractions_in_flight_def
      initial_sys_def initial_state_def ten_pages_def byte_lib_def upload_view_def
      handleDrop_def handleFileSelect_def loadPdf_begin_def loadPdf_settle_def loadPdf_try_def
      started_def remove_nth_def extract_disabled_def isValidRange_def extractPages_begin_def
      Let_def)

section \<open>The variants of the "First half" button\<close>

text \<open>
  Claim C9. The first and the second variant render "First half" when
  \<open>pageCount > 2\<close>, the third when \<open>pageCount > 1\<close>, so they differ exactly for a
  document of two pages; the handler is the same in all three and sets the range to
  \<open>[1, ceil(pageCount / 2)]\<close>.
\<close>

theorem firstHalf_variants:
  "firstHalf_offered_v2 st = firstHalf_offered st
   \<and> (firstHalf_offered_v3 st \<noteq> firstHalf_offered st \<longleftrightarrow>
        (\<exists>info. pdfInfo st = Some info \<and> pageCount info = 2))
   \<and> firstHalf_onClick_v2 st = firstHalf_onClick st
   \<and> firstHalf_onClick_v3 st = firstHalf_onClick st
   \<and> (pdfInfo st = Some info \<longrightarrow>
        (firstHalf_offered st \<longleftrightarrow> pageCount info > 2)
        \<and> (firstHalf_offered_v2 st \<longleftrightarrow> pageCount info > 2)
        \<and> (firstHalf_offered_v3 st \<longleftrightarrow> pageCount info > 1)
        \<and> startPage (firstHalf_onClick st) = 1
        \<and> endPage (firstHalf_onClick st) = \<lceil>real_of_int (pageCount info) / 2\<rceil>)"
  by (auto simp add: firstHalf_offered_def firstHalf_offered_v2_def firstHalf_offered_v3_def
      firstHalf_onClick_def firstHalf_onClick_v2_def firstHalf_onClick_v3_def
      split: option.splits)

theorem firstHalf_variants_witness:
  "pdfInfo ((ready_state 1 2)\<lparr>pdfInfo := Some (ten_info\<lparr>pageCount := 2\<rparr>)\<rparr>)
     = Some (ten_info\<lparr>pageCount := 2\<rparr>)
   \<and> \<not> firstHalf_offered ((ready_state 1 2)\<lparr>pdfInfo := Some (ten_info\<lparr>pageCount := 2\<rparr>)\<rparr>)
   \<and> \<not> firstHalf_offered_v2 ((ready_state 1 2)\<lparr>pdfInfo := Some (ten_info\<lparr>pageCount := 2\<rparr>)\<rparr>)
   \<and> firstHalf_offered_v3 ((ready_state 1 2)\<lparr>pdfInfo := Some (ten_info\<lparr>pageCount := 2\<rparr>)\<rparr>)
   \<and> endPage (firstHalf_onClick_v3
        ((ready_state 1 2)\<lparr>pdfInfo := Some (ten_info\<lparr>pageCount := 2\<rparr>)\<rparr>)) = 1"
  using firstHalf_variants [of "(ready_state 1 2)\<lparr>pdfInfo := Some (ten_info\<lparr>pageCount := 2\<rparr>)\<rparr>"
      "ten_info\<lparr>pageCount := 2\<rparr>"]
  by (simp add: ready_state_def ten_info_def ceiling_half)

section \<open>Clicking a thumbnail\<close>

lemma set_pageNumbers:
  "pdfInfo st = Some info \<Longrightarrow> set (pageNumbers st) = {1..pageCount info}"
proof -
  assume info: "pdfInfo st = Some info"
  have "set (map (\<lambda>i. int i + 1) [0 ..< nat (pageCount info)]) = {1..pageCount info}"
  proof (rule set_eqI)
    fix p
    show "p \<in> set (map (\<lambda>i. int i + 1) [0 ..< nat (pageCount info)]) \<longleftrightarrow> p \<in> {1..pageCount info}"
    proof
      assume "p \<in> set (map (\<lambda>i. int i + 1) [0 ..< nat (pageCount info)])"
      then show "p \<in> {1..pageCount info}" by auto
    next
      assume p: "p \<in> {1..pageCount info}"
      then have "nat (p - 1) < nat (pageCount info)" and "int (nat (p - 1)) + 1 = p" by auto
      then show "p \<in> set (map (\<lambda>i. int i + 1) [0 ..< nat (pageCount info)])"
        by (metis (mono_tags, lifting) atLeast0LessThan image_eqI lessThan_iff set_map set_upt)
    qed
  qed
  then show ?thesis by (simp add: pageNumbers_def info)
qed

text \<open>
  Claim C10. In the preview variant a thumbnail is rendered for each page number
  \<open>p\<close> of \<open>pageNumbers\<close>, that is for \<open>1 \<le> p \<le> pageCount\<close>; clicking it sets
  \<open>startPage\<close> and \<open>endPage\<close> to \<open>p\<close>, which is a valid range of one page.
\<close>

theorem thumb_selects_single_page:
  assumes info: "pdfInfo st = Some info" and p: "p \<in> set (pageNumbers st)"
  shows "thumb_onClick p st = st\<lparr>startPage := p, endPage := p\<rparr>
       \<and> 1 \<le> p \<and> p \<le> pageCount info
       \<and> isValidRange (thumb_onClick p st)
       \<and> selectedPageCount (thumb_onClick p st) = 1"
proof -
  from p have "p \<in> {1..pageCount info}" by (simp add: set_pageNumbers [OF info])
  then show ?thesis
    by (simp add: thumb_onClick_def isValidRange_def selectedPageCount_def info)
qed

theorem thumb_selects_single_page_witness:
  "pdfInfo (ready_state 3 5) = Some ten_info
   \<and> 7 \<in> set (pageNumbers (ready_state 3 5))
   \<and> thumb_onClick 7 (ready_state 3 5) = ready_state 7 7
   \<and> isValidRange (ready_state 7 7)"
proof -
  have i: "pdfInfo (ready_state 3 5) = Some ten_info" by (simp add: ready_state_def)
  have m: "7 \<in> set (pageNumbers (ready_state 3 5))"
    by (simp add: set_pageNumbers [OF i] ten_info_def)
  show ?thesis
    using thumb_selects_single_page [OF i m] i m by (simp add: ready_state_def thumb_onClick_def)
qed

end
